theory Spec2Isabelle
  imports Main "HOL-Library.Word"
begin

section \<open>Python values\<close>

text \<open>
  The transformation module \<open>ivy_debezium.py\<close> works on the values that Python's JSON
  decoder produces: \<open>None\<close>, booleans, integers, floats, text, lists and dictionaries
  keyed by text. A float is kept as its 64 bits (IEEE 754 binary64, which is what CPython
  stores). Text is a list of code points; the model covers the code points below 256,
  one \<^typ>\<open>char\<close> each. A dictionary is an association list in insertion order, as
  Python iterates it.
\<close>

datatype pyval =
    PNone
  | PBool bool
  | PInt int
  | PFloat "64 word"
  | PStr string
  | PList "pyval list"
  | PDict "(string \<times> pyval) list"

type_synonym pydict = "(string \<times> pyval) list"

text \<open>
  A raw message is a byte sequence (\<open>bytes\<close> or \<open>bytearray\<close>) or any other value.
\<close>

datatype message = MBytes "8 word list" | MVal pyval

text \<open>The exceptions that the module's own code can raise.\<close>

datatype error = TypeError | AttributeError | KeyError

text \<open>
  The functions of Python's runtime and standard library that the module calls and that are
  not part of it: \<open>bytes.decode("utf-8")\<close>, \<open>json.loads\<close>,
  \<open>json.dumps(v, separators=(",", ":"))\<close> (each \<open>None\<close> where the call raises), and
  \<open>str\<close> on a float, a list or a dictionary.
\<close>

record pylib =
  utf8_decode :: "8 word list \<Rightarrow> string option"
  json_loads :: "string \<Rightarrow> pyval option"
  json_dumps :: "pyval \<Rightarrow> string option"
  str_obj :: "pyval \<Rightarrow> string"

abbreviation bslash :: char where "bslash \<equiv> CHR 0x5C"
abbreviation squote :: char where "squote \<equiv> CHR 0x27"
abbreviation newline :: char where "newline \<equiv> CHR 0x0A"

subsection \<open>Builtins\<close>

text \<open>\<open>isinstance(v, dict)\<close>.\<close>

fun is_dict :: "pyval \<Rightarrow> bool" where
  "is_dict (PDict d) = True"
| "is_dict v = False"

text \<open>Truth value of a value, as \<open>not v\<close> and \<open>v or w\<close> test it.\<close>

fun truthy :: "pyval \<Rightarrow> bool" where
  "truthy PNone = False"
| "truthy (PBool b) = b"
| "truthy (PInt i) = (i \<noteq> 0)"
| "truthy (PFloat w) = (take_bit 63 w \<noteq> 0)"
| "truthy (PStr s) = (s \<noteq> [])"
| "truthy (PList xs) = (xs \<noteq> [])"
| "truthy (PDict d) = (d \<noteq> [])"

definition py_or :: "pyval \<Rightarrow> pyval \<Rightarrow> pyval" where
  "py_or a b = (if truthy a then a else b)"

text \<open>Decimal text of an integer, as \<open>str\<close> gives it.\<close>

function nat_str :: "nat \<Rightarrow> string" where
  "nat_str n = (if n < 10 then [''0123456789'' ! n]
                else nat_str (n div 10) @ [''0123456789'' ! (n mod 10)])"
  by pat_completeness auto
termination
  by (relation "measure id") auto

definition int_str :: "int \<Rightarrow> string" where
  "int_str i = (if i < 0 then CHR ''-'' # nat_str (nat (- i)) else nat_str (nat i))"

text \<open>\<open>str(v)\<close>, which is also what an f-string substitutes for \<open>{v}\<close>.\<close>

fun py_str :: "pylib \<Rightarrow> pyval \<Rightarrow> string" where
  "py_str lib PNone = ''None''"
| "py_str lib (PBool b) = (if b then ''True'' else ''False'')"
| "py_str lib (PInt i) = int_str i"
| "py_str lib (PStr s) = s"
| "py_str lib v = str_obj lib v"

text \<open>
  \<open>s.replace(old, new)\<close>: every occurrence of \<open>old\<close>, found from the left without
  overlap, is replaced; an empty \<open>old\<close> matches before every character and at the end.
\<close>

function py_replace :: "string \<Rightarrow> string \<Rightarrow> string \<Rightarrow> string" where
  "py_replace old new [] = (if old = [] then new else [])"
| "py_replace old new (c # cs) =
     (if old = [] then new @ concat (map (\<lambda>x. x # new) (c # cs))
      else if take (length old) (c # cs) = old
           then new @ py_replace old new (drop (length old) (c # cs))
      else c # py_replace old new cs)"
  by pat_completeness auto
termination
  by (relation "measure (\<lambda>(old, new, s). length s)") auto

text \<open>\<open>sep.join(xs)\<close>.\<close>

fun py_join :: "string \<Rightarrow> string list \<Rightarrow> string" where
  "py_join sep [] = []"
| "py_join sep [x] = x"
| "py_join sep (x # y # ys) = x @ sep @ py_join sep (y # ys)"

text \<open>
  \<open>c.isalnum()\<close> and \<open>c.isspace()\<close> for one character, by Python's Unicode tables on the
  code points below 256.
\<close>

definition isalnum_char :: "char \<Rightarrow> bool" where
  "isalnum_char c =
     (let n = (of_char c :: nat) in
        (48 \<le> n \<and> n \<le> 57) \<or> (65 \<le> n \<and> n \<le> 90) \<or> (97 \<le> n \<and> n \<le> 122)
        \<or> n \<in> {0xAA, 0xB2, 0xB3, 0xB5, 0xB9, 0xBA, 0xBC, 0xBD, 0xBE}
        \<or> (0xC0 \<le> n \<and> n \<noteq> 0xD7 \<and> n \<noteq> 0xF7))"

definition isspace_char :: "char \<Rightarrow> bool" where
  "isspace_char c =
     (let n = (of_char c :: nat) in
        (9 \<le> n \<and> n \<le> 13) \<or> (28 \<le> n \<and> n \<le> 32) \<or> n = 0x85 \<or> n = 0xA0)"

text \<open>\<open>s.isalnum()\<close>: every character is alphanumeric and there is at least one.\<close>

definition py_isalnum :: "string \<Rightarrow> bool" where
  "py_isalnum s = (s \<noteq> [] \<and> list_all isalnum_char s)"

text \<open>\<open>s.strip()\<close>: leading and trailing whitespace removed.\<close>

definition py_strip :: "string \<Rightarrow> string" where
  "py_strip s = rev (dropWhile isspace_char (rev (dropWhile isspace_char s)))"

section \<open>Literal encoder\<close>

definition cypher_escape_string :: "string \<Rightarrow> string" where
  "cypher_escape_string s =
     py_replace [squote] [bslash, squote] (py_replace [bslash] [bslash, bslash] s)"

text \<open>
  \<open>_cypher_literal\<close>. The source tests \<open>bool\<close> before \<open>int\<close>; the constructors keep
  the two apart. A dictionary is the only value left for the last branch.
\<close>

fun cypher_literal :: "pylib \<Rightarrow> pyval \<Rightarrow> string" where
  "cypher_literal lib PNone = ''NULL''"
| "cypher_literal lib (PBool b) = (if b then ''true'' else ''false'')"
| "cypher_literal lib (PInt i) = py_str lib (PInt i)"
| "cypher_literal lib (PFloat w) = py_str lib (PFloat w)"
| "cypher_literal lib (PStr s) = [squote] @ cypher_escape_string s @ [squote]"
| "cypher_literal lib (PList xs) =
     ''['' @ py_join '', '' (map (cypher_literal lib) xs) @ '']''"
| "cypher_literal lib (PDict d) =
     (case json_dumps lib (PDict d) of
        Some s \<Rightarrow> [squote] @ cypher_escape_string s @ [squote]
      | None \<Rightarrow> [squote] @ cypher_escape_string (py_str lib (PDict d)) @ [squote])"

section \<open>Reference grammar for quoted text\<close>

text \<open>
  The reading of a single-quoted literal that the specification's round-trip property
  refers to: a backslash followed by a backslash or a quote stands for that character, an
  unescaped quote ends the literal. It is written from the specification, to be compared
  with the encoder above; it returns the text read and what follows the closing quote.
\<close>

fun ref_read_body :: "string \<Rightarrow> (string \<times> string) option" where
  "ref_read_body [] = None"
| "ref_read_body [c] = (if c = squote then Some ([], []) else None)"
| "ref_read_body (c # e # cs) =
     (if c = squote then Some ([], e # cs)
      else if c = bslash then
        (if e = bslash \<or> e = squote
         then map_option (\<lambda>(t, r). (e # t, r)) (ref_read_body cs)
         else None)
      else map_option (\<lambda>(t, r). (c # t, r)) (ref_read_body (e # cs)))"

definition ref_read_quoted :: "string \<Rightarrow> (string \<times> string) option" where
  "ref_read_quoted s =
     (case s of [] \<Rightarrow> None | q # body \<Rightarrow> if q = squote then ref_read_body body else None)"

section \<open>Dictionaries and errors\<close>

text \<open>A call that raises returns \<open>Inl\<close> of the exception; \<open>bind_err\<close> runs the next
  statement only when the previous one did not raise.\<close>

definition bind_err :: "error + 'a \<Rightarrow> ('a \<Rightarrow> error + 'b) \<Rightarrow> error + 'b" where
  "bind_err m f = (case m of Inl e \<Rightarrow> Inl e | Inr x \<Rightarrow> f x)"

text \<open>\<open>k in d\<close>, \<open>d.get(k)\<close>, \<open>d[k]\<close> and \<open>d[k] = v\<close> on a dictionary. An assignment
  to a key already there keeps the key's place in the iteration order.\<close>

definition has_key :: "pydict \<Rightarrow> string \<Rightarrow> bool" where
  "has_key d k = (k \<in> set (map fst d))"

definition dict_get :: "pydict \<Rightarrow> string \<Rightarrow> pyval" where
  "dict_get d k = (case map_of d k of None \<Rightarrow> PNone | Some v \<Rightarrow> v)"

definition dict_item :: "pydict \<Rightarrow> string \<Rightarrow> error + pyval" where
  "dict_item d k = (case map_of d k of None \<Rightarrow> Inl KeyError | Some v \<Rightarrow> Inr v)"

fun dict_set :: "string \<Rightarrow> pyval \<Rightarrow> pydict \<Rightarrow> pydict" where
  "dict_set k v [] = [(k, v)]"
| "dict_set k v ((k', v') # d) =
     (if k' = k then (k', v) # d else (k', v') # dict_set k v d)"

text \<open>\<open>sub in s\<close> on text.\<close>

fun is_substring :: "string \<Rightarrow> string \<Rightarrow> bool" where
  "is_substring sub [] = (sub = [])"
| "is_substring sub (c # cs) = (take (length sub) (c # cs) = sub \<or> is_substring sub cs)"

text \<open>
  The same three operations on a value of any type, as the interpreter dispatches them:
  \<open>k in obj\<close> is key membership on a dictionary, element membership on a list, the
  substring test on text, and a \<open>TypeError\<close> on anything else; \<open>obj[k]\<close> with a text
  key is defined on dictionaries only; only a dictionary has \<open>get\<close>.
\<close>

fun py_contains :: "string \<Rightarrow> pyval \<Rightarrow> error + bool" where
  "py_contains k (PDict d) = Inr (has_key d k)"
| "py_contains k (PList xs) = Inr (PStr k \<in> set xs)"
| "py_contains k (PStr s) = Inr (is_substring k s)"
| "py_contains k v = Inl TypeError"

fun py_subscript :: "pyval \<Rightarrow> string \<Rightarrow> error + pyval" where
  "py_subscript (PDict d) k = dict_item d k"
| "py_subscript v k = Inl TypeError"

fun py_get :: "pyval \<Rightarrow> string \<Rightarrow> error + pyval" where
  "py_get (PDict d) k = Inr (dict_get d k)"
| "py_get v k = Inl AttributeError"

section \<open>Envelope decoder\<close>

text \<open>\<open>_as_obj\<close>: every exception is caught inside, and \<open>None\<close> is \<^const>\<open>PNone\<close>.\<close>

definition as_obj :: "pylib \<Rightarrow> message \<Rightarrow> pyval" where
  "as_obj lib message =
     (case message of
        MBytes bs \<Rightarrow>
          (case utf8_decode lib bs of
             None \<Rightarrow> PNone
           | Some s \<Rightarrow> (case json_loads lib s of None \<Rightarrow> PNone | Some v \<Rightarrow> v))
      | MVal PNone \<Rightarrow> PNone
      | MVal (PStr s) \<Rightarrow> (case json_loads lib s of None \<Rightarrow> PNone | Some v \<Rightarrow> v)
      | MVal (PDict d) \<Rightarrow> PDict d
      | MVal _ \<Rightarrow> PNone)"

text \<open>\<open>_payload\<close>.\<close>

definition payload :: "pyval \<Rightarrow> error + pyval" where
  "payload obj =
     bind_err (py_contains ''payload'' obj) (\<lambda>c.
       if c then
         bind_err (py_subscript obj ''payload'') (\<lambda>inner.
           if is_dict inner then Inr inner else Inr obj)
       else Inr obj)"

section \<open>Property-set builder\<close>

text \<open>\<open>_set_props\<close>: \<open>skip or set()\<close>, then the loop over \<open>props.items()\<close> as a
  left fold that carries \<open>clauses\<close>, then the join.\<close>

definition skip_set :: "string set option \<Rightarrow> string set" where
  "skip_set skip = (case skip of None \<Rightarrow> {} | Some s \<Rightarrow> if s = {} then {} else s)"

definition set_clause :: "pylib \<Rightarrow> string \<Rightarrow> string \<Rightarrow> pyval \<Rightarrow> string" where
  "set_clause lib var k v = ''SET '' @ var @ ''.'' @ k @ '' = '' @ cypher_literal lib v"

definition set_clauses :: "pylib \<Rightarrow> string \<Rightarrow> pydict \<Rightarrow> string set \<Rightarrow> string list" where
  "set_clauses lib var props skip =
     foldl (\<lambda>clauses (k, v).
              if k \<in> skip then clauses
              else if \<not> py_isalnum (py_replace ''_'' [] k) then clauses
              else clauses @ [set_clause lib var k v])
       [] props"

definition set_props :: "pylib \<Rightarrow> string \<Rightarrow> pydict \<Rightarrow> string set option \<Rightarrow> string" where
  "set_props lib var props skip =
     (let skip = skip_set skip;
          clauses = set_clauses lib var props skip
      in py_join [newline] clauses)"

section \<open>Statement builders\<close>

text \<open>The row choice \<open>after if isinstance(after, dict) else before if
  isinstance(before, dict) else None\<close>, which both builders make.\<close>

definition select_row :: "pyval \<Rightarrow> pyval \<Rightarrow> pyval" where
  "select_row after_row before_row =
     (if is_dict after_row then after_row
      else if is_dict before_row then before_row else PNone)"

text \<open>The parsing of \<open>data\<close> when it is text, and the two loops that fill \<open>props\<close>:
  the known fields that the row has, then every entry of \<open>data\<close> when it is a
  dictionary.\<close>

definition parse_data :: "pylib \<Rightarrow> pyval \<Rightarrow> pyval" where
  "parse_data lib data =
     (case data of
        PStr s \<Rightarrow> (case json_loads lib s of None \<Rightarrow> PDict [] | Some v \<Rightarrow> v)
      | _ \<Rightarrow> data)"

definition copy_fields :: "string list \<Rightarrow> pydict \<Rightarrow> pydict \<Rightarrow> pydict" where
  "copy_fields ks row props =
     foldl (\<lambda>props k. if has_key row k then dict_set k (dict_get row k) props else props)
       props ks"

definition merge_data :: "pyval \<Rightarrow> pydict \<Rightarrow> pydict" where
  "merge_data data props =
     (case data of
        PDict d \<Rightarrow> foldl (\<lambda>props (k, v). dict_set k v props) props d
      | _ \<Rightarrow> props)"

text \<open>\<open>_build_entity_cypher\<close>, in three parts: the property map of a row (the lines
  that fill \<open>props\<close>), the work on the chosen row, and the whole function.\<close>

definition entity_props :: "pylib \<Rightarrow> pydict \<Rightarrow> pyval \<Rightarrow> pydict" where
  "entity_props lib row data =
     (let props = [];
          props = dict_set ''id'' (PStr (py_str lib (dict_get row ''id''))) props;
          props = dict_set ''tenant_id'' (PStr (py_str lib (dict_get row ''tenant_id''))) props;
          props = dict_set ''entity_type'' (PStr (py_str lib (dict_get row ''entity_type''))) props;
          props = copy_fields
                    [''version'', ''source_count'', ''created_at'', ''updated_at'', ''deleted_at'']
                    row props
      in merge_data data props)"

definition entity_row_cypher :: "pylib \<Rightarrow> pydict \<Rightarrow> error + string option" where
  "entity_row_cypher lib row =
     (let entity_id = dict_get row ''id'';
          tenant_id = dict_get row ''tenant_id'';
          entity_type = dict_get row ''entity_type'';
          data = py_or (dict_get row ''data'') (PDict [])
      in if \<not> truthy entity_id \<or> \<not> truthy tenant_id \<or> \<not> truthy entity_type then Inr None
         else
           let data = parse_data lib data;
               label = py_str lib entity_type;
               props = entity_props lib row data
           in bind_err (dict_item props ''id'') (\<lambda>pid.
              bind_err (dict_item props ''tenant_id'') (\<lambda>ptid.
                Inr (Some (py_strip (
                  [newline] @ ''MERGE (e:'' @ label @ '' {id: '' @ cypher_literal lib pid
                    @ '', tenant_id: '' @ cypher_literal lib ptid @ ''})'' @ [newline]
                    @ set_props lib ''e'' props None @ [newline]
                    @ ''RETURN e;'' @ [newline]))))))"

definition build_entity_cypher :: "pylib \<Rightarrow> message \<Rightarrow> error + string option" where
  "build_entity_cypher lib message_value =
     (let obj = as_obj lib message_value
      in if obj = PNone then Inr None
         else
           bind_err (payload obj) (\<lambda>p.
           bind_err (py_get p ''op'') (\<lambda>op_code.
           bind_err (py_get p ''after'') (\<lambda>after_row.
           bind_err (py_get p ''before'') (\<lambda>before_row.
             (case select_row after_row before_row of
                PDict row \<Rightarrow> entity_row_cypher lib row
              | _ \<Rightarrow> Inr None))))))"

text \<open>\<open>_build_relationship_cypher\<close>, in the same three parts.\<close>

definition relationship_props :: "pylib \<Rightarrow> pydict \<Rightarrow> pyval \<Rightarrow> pydict" where
  "relationship_props lib row data =
     (let props = [];
          props = dict_set ''id'' (PStr (py_str lib (dict_get row ''id''))) props;
          props = dict_set ''tenant_id'' (PStr (py_str lib (dict_get row ''tenant_id''))) props;
          props = copy_fields
                    [''source_plan_id'', ''source_execution_id'', ''created_at'', ''updated_at'',
                     ''deleted_at'']
                    row props
      in merge_data data props)"

definition relationship_row_cypher :: "pylib \<Rightarrow> pydict \<Rightarrow> error + string option" where
  "relationship_row_cypher lib row =
     (let tenant_id = dict_get row ''tenant_id'';
          rel_type = dict_get row ''relationship_type'';
          rel_id = dict_get row ''id'';
          from_id = dict_get row ''from_merged_entity_id'';
          to_id = dict_get row ''to_merged_entity_id'';
          from_type = dict_get row ''from_entity_type'';
          to_type = dict_get row ''to_entity_type'';
          data = py_or (dict_get row ''data'') (PDict [])
      in if \<not> truthy tenant_id \<or> \<not> truthy rel_type \<or> \<not> truthy rel_id \<or> \<not> truthy from_id
            \<or> \<not> truthy to_id \<or> \<not> truthy from_type \<or> \<not> truthy to_type then Inr None
         else
           let data = parse_data lib data;
               props = relationship_props lib row data
           in bind_err (dict_item props ''id'') (\<lambda>pid.
              bind_err (dict_item props ''tenant_id'') (\<lambda>ptid.
                Inr (Some (py_strip (
                  [newline] @ ''MERGE (a:'' @ py_str lib from_type @ '' {id: ''
                    @ cypher_literal lib (PStr (py_str lib from_id)) @ '', tenant_id: ''
                    @ cypher_literal lib (PStr (py_str lib tenant_id)) @ ''})'' @ [newline]
                    @ ''MERGE (b:'' @ py_str lib to_type @ '' {id: ''
                    @ cypher_literal lib (PStr (py_str lib to_id)) @ '', tenant_id: ''
                    @ cypher_literal lib (PStr (py_str lib tenant_id)) @ ''})'' @ [newline]
                    @ ''MERGE (a)-[r:'' @ py_str lib rel_type @ '' {id: ''
                    @ cypher_literal lib pid @ '', tenant_id: '' @ cypher_literal lib ptid
                    @ ''}]->(b)'' @ [newline]
                    @ set_props lib ''r'' props None @ [newline]
                    @ ''RETURN r;'' @ [newline]))))))"

definition build_relationship_cypher :: "pylib \<Rightarrow> message \<Rightarrow> error + string option" where
  "build_relationship_cypher lib message_value =
     (let obj = as_obj lib message_value
      in if obj = PNone then Inr None
         else
           bind_err (payload obj) (\<lambda>p.
           bind_err (py_get p ''after'') (\<lambda>after_row.
           bind_err (py_get p ''before'') (\<lambda>before_row.
             (case select_row after_row before_row of
                PDict row \<Rightarrow> relationship_row_cypher lib row
              | _ \<Rightarrow> Inr None)))))"

section \<open>Notions used to state the properties\<close>

text \<open>The row that a message yields once decoded and unwrapped: the value both builders
  bind to \<open>row\<close>, or the exception raised before that point.\<close>

definition effective_row :: "pylib \<Rightarrow> message \<Rightarrow> error + pyval" where
  "effective_row lib message_value =
     (let obj = as_obj lib message_value
      in if obj = PNone then Inr PNone
         else
           bind_err (payload obj) (\<lambda>p.
           bind_err (py_get p ''after'') (\<lambda>after_row.
           bind_err (py_get p ''before'') (\<lambda>before_row.
             Inr (select_row after_row before_row)))))"

text \<open>A key "composed solely of letters, digits, and underscores", in the specification's
  words, and the keys among them that have a letter or a digit.\<close>

definition identifier_chars :: "string \<Rightarrow> bool" where
  "identifier_chars k = list_all (\<lambda>c. isalnum_char c \<or> c = CHR ''_'') k"

definition has_alnum :: "string \<Rightarrow> bool" where
  "has_alnum k = list_ex isalnum_char k"

text \<open>The library functions used in closed examples: no byte sequence decodes, the only
  document that parses is \<open>1\<close>, nothing serialises.\<close>

definition example_lib :: pylib where
  "example_lib =
     \<lparr>utf8_decode = (\<lambda>bs. None),
      json_loads = (\<lambda>s. if s = ''1'' then Some (PInt 1) else None),
      json_dumps = (\<lambda>v. None),
      str_obj = (\<lambda>v. ''?'')\<rparr>"

section \<open>Properties of the literal encoder\<close>

lemma py_replace_char:
  "py_replace [c] new s = concat (map (\<lambda>x. if x = c then new else [x]) s)"
  by (induction s) auto

lemma cypher_escape_string_Nil: "cypher_escape_string [] = []"
  by (simp add: cypher_escape_string_def)

lemma cypher_escape_string_Cons:
  "cypher_escape_string (c # cs) =
     (if c = bslash then [bslash, bslash]
      else if c = squote then [bslash, squote] else [c]) @ cypher_escape_string cs"
  by (simp add: cypher_escape_string_def py_replace_char)

lemma ref_read_body_escape:
  "ref_read_body (cypher_escape_string s @ squote # rest) = Some (s, rest)"
proof (induction s)
  case Nil
  show ?case by (cases rest) (simp_all add: cypher_escape_string_Nil)
next
  case (Cons c cs)
  obtain x xs where tail: "cypher_escape_string cs @ squote # rest = x # xs"
    by (cases "cypher_escape_string cs @ squote # rest") auto
  show ?case
  proof (cases "c = bslash \<or> c = squote")
    case True
    then show ?thesis using Cons.IH by (auto simp: cypher_escape_string_Cons)
  next
    case False
    then show ?thesis
      using Cons.IH tail by (simp add: cypher_escape_string_Cons)
  qed
qed

text \<open>
  Claim C7. The quoted literal that \<open>_cypher_literal\<close> produces for a text value, followed
  by any rest of a statement, is read back by the reference grammar as exactly the original
  text, with the rest of the statement left over. This holds for every text, with or
  without backslashes and single quotes.
\<close>

theorem cypher_literal_text_roundtrip:
  "ref_read_quoted (cypher_literal lib (PStr s) @ rest) = Some (s, rest)"
  by (simp add: ref_read_quoted_def ref_read_body_escape)

section \<open>Auxiliary facts\<close>

subsection \<open>Keys, clauses and whitespace\<close>

lemma not_alnum_underscore: "\<not> isalnum_char (CHR ''_'')"
  by (simp add: isalnum_char_def)

lemma remove_char: "py_replace [u] [] k = filter (\<lambda>c. c \<noteq> u) k"
  by (induction k) (simp_all add: py_replace_char)

lemma alnum_filter_all:
  "list_all P (filter (\<lambda>c. c \<noteq> u) k) = list_all (\<lambda>c. P c \<or> c = u) k"
  by (induction k) auto

lemma alnum_filter_nonempty:
  "\<not> P u \<Longrightarrow> list_all (\<lambda>c. P c \<or> c = u) k \<Longrightarrow>
     (filter (\<lambda>c. c \<noteq> u) k \<noteq> []) = list_ex P k"
  by (induction k) auto

lemma key_check_iff:
  "py_isalnum (py_replace ''_'' [] k) \<longleftrightarrow> identifier_chars k \<and> has_alnum k"
  using alnum_filter_nonempty [of isalnum_char "CHR ''_''" k, OF not_alnum_underscore]
  by (auto simp only: py_isalnum_def remove_char alnum_filter_all identifier_chars_def has_alnum_def)

subsection \<open>Dictionaries\<close>

lemma bind_err_Inl: "bind_err (Inl e) f = Inl e"
  by (simp add: bind_err_def)

lemma bind_err_Inr: "bind_err (Inr x) f = f x"
  by (simp add: bind_err_def)

lemma set_clauses_acc:
  "foldl (\<lambda>clauses (k, v).
              if k \<in> skip then clauses
              else if \<not> py_isalnum (py_replace ''_'' [] k) then clauses
              else clauses @ [set_clause lib var k v]) acc props
   = acc @ map (\<lambda>(k, v). set_clause lib var k v)
       (filter (\<lambda>(k, v). k \<notin> skip \<and> py_isalnum (py_replace ''_'' [] k)) props)"
  by (induction props arbitrary: acc) (simp_all split: prod.split)

lemma set_clauses_filter:
  "set_clauses lib var props skip =
     map (\<lambda>(k, v). set_clause lib var k v)
       (filter (\<lambda>(k, v). k \<notin> skip \<and> py_isalnum (py_replace ''_'' [] k)) props)"
  by (simp add: set_clauses_def set_clauses_acc)

lemma isspace_newline: "isspace_char newline"
  by (simp add: isspace_char_def)

lemma py_strip_wrapped:
  assumes "\<not> isspace_char c" "\<not> isspace_char d"
  shows "py_strip (newline # c # body @ [d, newline]) = c # body @ [d]"
  using assms isspace_newline by (simp add: py_strip_def)

lemma map_of_dict_set: "map_of (dict_set k v d) = (map_of d)(k \<mapsto> v)"
  by (induction d) auto

lemma map_of_copy_fields:
  "k \<notin> set ks \<Longrightarrow> map_of (copy_fields ks row props) k = map_of props k"
  unfolding copy_fields_def
  by (induction ks arbitrary: props) (simp_all add: map_of_dict_set)

lemma merge_fold_map_of:
  "distinct (map fst d) \<Longrightarrow>
   map_of (foldl (\<lambda>props (k, v). dict_set k v props) props d) k =
     (case map_of d k of Some v \<Rightarrow> Some v | None \<Rightarrow> map_of props k)"
proof (induction d arbitrary: props)
  case Nil
  show ?case by simp
next
  case (Cons x d)
  obtain k0 v0 where x: "x = (k0, v0)" by (cases x)
  from Cons.prems x have none: "map_of d k0 = None" and dist: "distinct (map fst d)"
    by (simp_all add: map_of_eq_None_iff)
  have "map_of (foldl (\<lambda>props (k, v). dict_set k v props) props (x # d)) k =
        map_of (foldl (\<lambda>props (k, v). dict_set k v props) (dict_set k0 v0 props) d) k"
    by (simp add: x)
  also have "\<dots> = (case map_of d k of Some v \<Rightarrow> Some v
                     | None \<Rightarrow> map_of (dict_set k0 v0 props) k)"
    by (rule Cons.IH [OF dist])
  also have "\<dots> = (case map_of (x # d) k of Some v \<Rightarrow> Some v | None \<Rightarrow> map_of props k)"
    using none by (cases "k = k0") (simp_all add: x map_of_dict_set split: option.split)
  finally show ?case .
qed

lemma merge_fold_keeps:
  "map_of props k \<noteq> None \<Longrightarrow>
   map_of (foldl (\<lambda>props (k, v). dict_set k v props) props d) k \<noteq> None"
  by (induction d arbitrary: props) (simp_all add: map_of_dict_set split: prod.split)

lemma merge_data_keeps:
  "map_of props k \<noteq> None \<Longrightarrow> map_of (merge_data data props) k \<noteq> None"
  by (cases data) (simp_all add: merge_data_def merge_fold_keeps)

lemma map_of_merge_data:
  "distinct (map fst d) \<Longrightarrow>
   map_of (merge_data (PDict d) props) k =
     (case map_of d k of Some v \<Rightarrow> Some v | None \<Rightarrow> map_of props k)"
  by (simp add: merge_data_def merge_fold_map_of)

lemma entity_props_id:
  "map_of (entity_props lib row data) ''id'' \<noteq> None"
  "map_of (entity_props lib row data) ''tenant_id'' \<noteq> None"
  by (simp_all add: entity_props_def merge_data_keeps map_of_copy_fields map_of_dict_set)

lemma relationship_props_id:
  "map_of (relationship_props lib row data) ''id'' \<noteq> None"
  "map_of (relationship_props lib row data) ''tenant_id'' \<noteq> None"
  by (simp_all add: relationship_props_def merge_data_keeps map_of_copy_fields map_of_dict_set)

subsection \<open>The builders on a chosen row\<close>

lemma dict_item_present:
  "map_of d k \<noteq> None \<Longrightarrow> dict_item d k = Inr (dict_get d k)"
  by (auto simp: dict_item_def dict_get_def)

lemma py_strip_statement:
  "py_strip ([newline] @ CHR ''M'' # body @ '';'' @ [newline]) = CHR ''M'' # body @ '';''"
proof -
  have "\<not> isspace_char (CHR ''M'')" "\<not> isspace_char (CHR '';'')"
    by (simp_all add: isspace_char_def)
  then show ?thesis
    using py_strip_wrapped [of "CHR ''M''" "CHR '';''" body] by simp
qed

lemma entity_row_cypher_valid:
  assumes "truthy (dict_get row ''id'')" "truthy (dict_get row ''tenant_id'')"
    "truthy (dict_get row ''entity_type'')"
    and props: "props = entity_props lib row (parse_data lib (py_or (dict_get row ''data'') (PDict [])))"
  shows "entity_row_cypher lib row =
    Inr (Some (''MERGE (e:'' @ py_str lib (dict_get row ''entity_type'') @ '' {id: ''
      @ cypher_literal lib (dict_get props ''id'') @ '', tenant_id: ''
      @ cypher_literal lib (dict_get props ''tenant_id'') @ ''})'' @ [newline]
      @ set_props lib ''e'' props None @ [newline] @ ''RETURN e;''))"
proof -
  define body where "body = ''ERGE (e:'' @ py_str lib (dict_get row ''entity_type'') @ '' {id: ''
      @ cypher_literal lib (dict_get props ''id'') @ '', tenant_id: ''
      @ cypher_literal lib (dict_get props ''tenant_id'') @ ''})'' @ [newline]
      @ set_props lib ''e'' props None @ [newline] @ ''RETURN e''"
  have items: "dict_item props ''id'' = Inr (dict_get props ''id'')"
    "dict_item props ''tenant_id'' = Inr (dict_get props ''tenant_id'')"
    unfolding props by (rule dict_item_present, rule entity_props_id)+
  have "entity_row_cypher lib row =
          Inr (Some (py_strip ([newline] @ CHR ''M'' # body @ '';'' @ [newline])))"
    using assms(1-3) items
    by (simp add: entity_row_cypher_def Let_def props [symmetric] bind_err_Inr body_def)
  then show ?thesis
    by (simp only: py_strip_statement) (simp add: body_def)
qed

lemma relationship_row_cypher_valid:
  assumes "truthy (dict_get row ''tenant_id'')" "truthy (dict_get row ''relationship_type'')"
    "truthy (dict_get row ''id'')" "truthy (dict_get row ''from_merged_entity_id'')"
    "truthy (dict_get row ''to_merged_entity_id'')" "truthy (dict_get row ''from_entity_type'')"
    "truthy (dict_get row ''to_entity_type'')"
    and props: "props = relationship_props lib row (parse_data lib (py_or (dict_get row ''data'') (PDict [])))"
  shows "relationship_row_cypher lib row =
    Inr (Some (''MERGE (a:'' @ py_str lib (dict_get row ''from_entity_type'') @ '' {id: ''
      @ cypher_literal lib (PStr (py_str lib (dict_get row ''from_merged_entity_id'')))
      @ '', tenant_id: '' @ cypher_literal lib (PStr (py_str lib (dict_get row ''tenant_id'')))
      @ ''})'' @ [newline]
      @ ''MERGE (b:'' @ py_str lib (dict_get row ''to_entity_type'') @ '' {id: ''
      @ cypher_literal lib (PStr (py_str lib (dict_get row ''to_merged_entity_id'')))
      @ '', tenant_id: '' @ cypher_literal lib (PStr (py_str lib (dict_get row ''tenant_id'')))
      @ ''})'' @ [newline]
      @ ''MERGE (a)-[r:'' @ py_str lib (dict_get row ''relationship_type'') @ '' {id: ''
      @ cypher_literal lib (dict_get props ''id'') @ '', tenant_id: ''
      @ cypher_literal lib (dict_get props ''tenant_id'') @ ''}]->(b)'' @ [newline]
      @ set_props lib ''r'' props None @ [newline] @ ''RETURN r;''))"
proof -
  define body where "body = ''ERGE (a:'' @ py_str lib (dict_get row ''from_entity_type'') @ '' {id: ''
      @ cypher_literal lib (PStr (py_str lib (dict_get row ''from_merged_entity_id'')))
      @ '', tenant_id: '' @ cypher_literal lib (PStr (py_str lib (dict_get row ''tenant_id'')))
      @ ''})'' @ [newline]
      @ ''MERGE (b:'' @ py_str lib (dict_get row ''to_entity_type'') @ '' {id: ''
      @ cypher_literal lib (PStr (py_str lib (dict_get row ''to_merged_entity_id'')))
      @ '', tenant_id: '' @ cypher_literal lib (PStr (py_str lib (dict_get row ''tenant_id'')))
      @ ''})'' @ [newline]
      @ ''MERGE (a)-[r:'' @ py_str lib (dict_get row ''relationship_type'') @ '' {id: ''
      @ cypher_literal lib (dict_get props ''id'') @ '', tenant_id: ''
      @ cypher_literal lib (dict_get props ''tenant_id'') @ ''}]->(b)'' @ [newline]
      @ set_props lib ''r'' props None @ [newline] @ ''RETURN r''"
  have items: "dict_item props ''id'' = Inr (dict_get props ''id'')"
    "dict_item props ''tenant_id'' = Inr (dict_get props ''tenant_id'')"
    unfolding props by (rule dict_item_present, rule relationship_props_id)+
  have "relationship_row_cypher lib row =
          Inr (Some (py_strip ([newline] @ CHR ''M'' # body @ '';'' @ [newline])))"
    using assms(1-7) items
    by (simp add: relationship_row_cypher_def Let_def props [symmetric] bind_err_Inr body_def)
  then show ?thesis
    by (simp only: py_strip_statement) (simp add: body_def)
qed

lemma entity_row_cypher_invalid:
  "\<not> (truthy (dict_get row ''id'') \<and> truthy (dict_get row ''tenant_id'')
      \<and> truthy (dict_get row ''entity_type'')) \<Longrightarrow> entity_row_cypher lib row = Inr None"
  by (auto simp: entity_row_cypher_def Let_def)

lemma relationship_row_cypher_invalid:
  "\<not> (truthy (dict_get row ''tenant_id'') \<and> truthy (dict_get row ''relationship_type'')
      \<and> truthy (dict_get row ''id'') \<and> truthy (dict_get row ''from_merged_entity_id'')
      \<and> truthy (dict_get row ''to_merged_entity_id'') \<and> truthy (dict_get row ''from_entity_type'')
      \<and> truthy (dict_get row ''to_entity_type'')) \<Longrightarrow> relationship_row_cypher lib row = Inr None"
  by (auto simp: relationship_row_cypher_def Let_def)

lemma build_entity_cypher_row:
  "build_entity_cypher lib m =
     (case effective_row lib m of
        Inl e \<Rightarrow> Inl e
      | Inr row \<Rightarrow> (case row of PDict r \<Rightarrow> entity_row_cypher lib r | _ \<Rightarrow> Inr None))"
proof (cases "as_obj lib m = PNone")
  case True
  then show ?thesis by (simp add: build_entity_cypher_def effective_row_def)
next
  case False
  show ?thesis
  proof (cases "payload (as_obj lib m)")
    case (Inl e)
    with False show ?thesis
      by (simp add: build_entity_cypher_def effective_row_def bind_err_def)
  next
    case (Inr p)
    with False show ?thesis
      by (cases p) (simp_all add: build_entity_cypher_def effective_row_def bind_err_def)
  qed
qed

lemma build_relationship_cypher_row:
  "build_relationship_cypher lib m =
     (case effective_row lib m of
        Inl e \<Rightarrow> Inl e
      | Inr row \<Rightarrow> (case row of PDict r \<Rightarrow> relationship_row_cypher lib r | _ \<Rightarrow> Inr None))"
proof (cases "as_obj lib m = PNone")
  case True
  then show ?thesis by (simp add: build_relationship_cypher_def effective_row_def)
next
  case False
  show ?thesis
  proof (cases "payload (as_obj lib m)")
    case (Inl e)
    with False show ?thesis
      by (simp add: build_relationship_cypher_def effective_row_def bind_err_def)
  next
    case (Inr p)
    with False show ?thesis
      by (cases p) (simp_all add: build_relationship_cypher_def effective_row_def bind_err_def)
  qed
qed

subsection \<open>The envelope, the property maps, and evaluation\<close>

lemma as_obj_example: "as_obj example_lib (MVal (PStr ''1'')) = PInt 1"
  by (simp add: as_obj_def example_lib_def)

lemma payload_not_dict:
  "\<not> is_dict v \<Longrightarrow> payload v = Inl TypeError \<or> payload v = Inr v"
  by (cases v) (simp_all add: payload_def bind_err_def)

lemma py_get_not_dict: "\<not> is_dict v \<Longrightarrow> py_get v k = Inl AttributeError"
  by (cases v) simp_all

lemma builders_on_envelope:
  assumes "payload (as_obj lib m) = Inr (PDict p)"
  shows "effective_row lib m = Inr (select_row (dict_get p ''after'') (dict_get p ''before''))"
proof -
  have "as_obj lib m \<noteq> PNone"
    using assms by (auto simp: payload_def bind_err_def)
  then show ?thesis using assms by (simp add: effective_row_def bind_err_def)
qed

lemma dict_get_copy_fields:
  "k \<notin> set ks \<Longrightarrow> dict_get (copy_fields ks row props) k = dict_get props k"
  by (simp add: dict_get_def map_of_copy_fields)

lemma parse_data_failure:
  "json_loads lib blob = None \<Longrightarrow> parse_data lib (py_or (PStr blob) (PDict [])) = PDict []"
  by (simp add: parse_data_def py_or_def)

lemma entity_props_empty:
  "entity_props lib row (PDict []) =
     copy_fields [''version'', ''source_count'', ''created_at'', ''updated_at'', ''deleted_at'']
       row
       [(''id'', PStr (py_str lib (dict_get row ''id''))),
        (''tenant_id'', PStr (py_str lib (dict_get row ''tenant_id''))),
        (''entity_type'', PStr (py_str lib (dict_get row ''entity_type'')))]"
  by (simp add: entity_props_def merge_data_def)

lemma relationship_props_empty:
  "relationship_props lib row (PDict []) =
     copy_fields [''source_plan_id'', ''source_execution_id'', ''created_at'', ''updated_at'',
                  ''deleted_at'']
       row
       [(''id'', PStr (py_str lib (dict_get row ''id''))),
        (''tenant_id'', PStr (py_str lib (dict_get row ''tenant_id'')))]"
  by (simp add: relationship_props_def merge_data_def)

lemma dict_get_Cons:
  "dict_get ((k, v) # d) k' = (if k = k' then v else dict_get d k')"
  by (simp add: dict_get_def)

lemma dict_get_merge_data:
  "distinct (map fst d) \<Longrightarrow>
   dict_get (merge_data (PDict d) props) k =
     (case map_of d k of Some v \<Rightarrow> v | None \<Rightarrow> dict_get props k)"
  by (simp add: dict_get_def map_of_merge_data split: option.split)

lemma entity_props_identity:
  assumes "distinct (map fst d)"
  shows "dict_get (entity_props lib row (PDict d)) ''id'' =
           (case map_of d ''id'' of Some v \<Rightarrow> v
            | None \<Rightarrow> PStr (py_str lib (dict_get row ''id'')))"
    and "dict_get (entity_props lib row (PDict d)) ''tenant_id'' =
           (case map_of d ''tenant_id'' of Some v \<Rightarrow> v
            | None \<Rightarrow> PStr (py_str lib (dict_get row ''tenant_id'')))"
  using assms
  by (simp_all add: entity_props_def dict_get_merge_data dict_get_copy_fields dict_get_Cons
      split: option.split)

lemma relationship_props_identity:
  assumes "distinct (map fst d)"
  shows "dict_get (relationship_props lib row (PDict d)) ''id'' =
           (case map_of d ''id'' of Some v \<Rightarrow> v
            | None \<Rightarrow> PStr (py_str lib (dict_get row ''id'')))"
    and "dict_get (relationship_props lib row (PDict d)) ''tenant_id'' =
           (case map_of d ''tenant_id'' of Some v \<Rightarrow> v
            | None \<Rightarrow> PStr (py_str lib (dict_get row ''tenant_id'')))"
  using assms
  by (simp_all add: relationship_props_def dict_get_merge_data dict_get_copy_fields
      dict_get_Cons split: option.split)

lemmas run_defs =
  build_entity_cypher_def build_relationship_cypher_def effective_row_def as_obj_def payload_def
  bind_err_def has_key_def select_row_def dict_get_def entity_row_cypher_def
  relationship_row_cypher_def py_or_def parse_data_def entity_props_def relationship_props_def
  copy_fields_def merge_data_def dict_item_def set_props_def set_clauses_def set_clause_def
  skip_set_def py_isalnum_def isalnum_char_def py_strip_def isspace_char_def
  cypher_escape_string_def int_str_def example_lib_def

section \<open>Properties of the decoder and the builders\<close>

text \<open>
  Claim C1. The claim is that for every raw message both builders return a statement or
  \<open>None\<close> and never raise. \<open>_as_obj\<close> is annotated to return a dictionary or \<open>None\<close>, but
  it returns whatever \<open>json.loads\<close> gives. The theorem states what the code does on a
  message (bytes or text) that decodes to a document that is neither \<open>null\<close> nor a mapping,
  such as a number, a string or a list: \<open>_payload\<close> raises \<open>TypeError\<close> on
  \<open>"payload" in obj\<close> or on \<open>obj["payload"]\<close>, or else the builder raises
  \<open>AttributeError\<close> on \<open>p.get\<close>, so both builders raise instead of returning \<open>None\<close>.
\<close>

theorem nonmapping_document_raises:
  assumes "as_obj lib m = v" "v \<noteq> PNone" "\<not> is_dict v"
  shows "(build_entity_cypher lib m = Inl TypeError \<or> build_entity_cypher lib m = Inl AttributeError)
       \<and> (build_relationship_cypher lib m = Inl TypeError
            \<or> build_relationship_cypher lib m = Inl AttributeError)"
proof -
  from payload_not_dict [OF assms(3)] show ?thesis
  proof
    assume "payload v = Inl TypeError"
    then show ?thesis using assms(1,2)
      by (simp add: build_entity_cypher_def build_relationship_cypher_def bind_err_def)
  next
    assume "payload v = Inr v"
    then show ?thesis using assms(1,2) py_get_not_dict [OF assms(3)]
      by (simp add: build_entity_cypher_def build_relationship_cypher_def bind_err_def)
  qed
qed

text \<open>The message \<open>1\<close>: it parses to the number 1, and both builders raise
  \<open>TypeError\<close>.\<close>

theorem nonmapping_document_raises_witness:
  "as_obj example_lib (MVal (PStr ''1'')) = PInt 1
   \<and> build_entity_cypher example_lib (MVal (PStr ''1'')) = Inl TypeError
   \<and> build_relationship_cypher example_lib (MVal (PStr ''1'')) = Inl TypeError"
  using nonmapping_document_raises [of example_lib "MVal (PStr ''1'')" "PInt 1"]
  by (simp add: as_obj_example build_entity_cypher_def build_relationship_cypher_def payload_def bind_err_def)

text \<open>
  Claim C2. For the row \<open>{id: "e1", tenant_id: "t1", entity_type: "Person", data: {"name":
  "Ada"}}\<close> wrapped in an \<open>after\<close> snapshot, \<open>_build_entity_cypher\<close> returns the
  statement that merges a node labelled \<open>Person\<close> keyed by \<open>id = 'e1'\<close> and
  \<open>tenant_id = 't1'\<close> and that has the clause \<open>SET e.name = 'Ada'\<close>. The whole text of the
  statement is given; it does not depend on the library functions.
\<close>

theorem entity_scenario:
  "build_entity_cypher lib
     (MVal (PDict [(''after'', PDict [(''id'', PStr ''e1''), (''tenant_id'', PStr ''t1''),
                                      (''entity_type'', PStr ''Person''),
                                      (''data'', PDict [(''name'', PStr ''Ada'')])])]))
   = Inr (Some (''MERGE (e:Person {id: '' @ [squote] @ ''e1'' @ [squote]
                  @ '', tenant_id: '' @ [squote] @ ''t1'' @ [squote] @ ''})'' @ [newline]
                @ ''SET e.id = '' @ [squote] @ ''e1'' @ [squote] @ [newline]
                @ ''SET e.tenant_id = '' @ [squote] @ ''t1'' @ [squote] @ [newline]
                @ ''SET e.entity_type = '' @ [squote] @ ''Person'' @ [squote] @ [newline]
                @ ''SET e.name = '' @ [squote] @ ''Ada'' @ [squote] @ [newline]
                @ ''RETURN e;''))"
  by (simp add: build_entity_cypher_def as_obj_def payload_def bind_err_def has_key_def
      select_row_def dict_get_def entity_row_cypher_def py_or_def parse_data_def
      entity_props_def copy_fields_def merge_data_def dict_item_def set_props_def
      set_clauses_def set_clause_def skip_set_def py_isalnum_def isalnum_char_def
      py_strip_def isspace_char_def cypher_escape_string_def)

text \<open>
  Claim C3. On a decoded envelope \<open>p\<close>: when \<open>after\<close> holds a row (a mapping), whatever
  \<open>before\<close> holds, both builders work on the \<open>after\<close> row; when \<open>after\<close> holds no row
  and \<open>before\<close> does (a delete event), both work on the \<open>before\<close> row; when neither holds
  a row, both builders return \<open>None\<close>.
\<close>

theorem row_selection:
  assumes "payload (as_obj lib m) = Inr (PDict p)"
  shows "(dict_get p ''after'' = PDict a \<longrightarrow>
            build_entity_cypher lib m = entity_row_cypher lib a
          \<and> build_relationship_cypher lib m = relationship_row_cypher lib a)
       \<and> (\<not> is_dict (dict_get p ''after'') \<and> dict_get p ''before'' = PDict b \<longrightarrow>
            build_entity_cypher lib m = entity_row_cypher lib b
          \<and> build_relationship_cypher lib m = relationship_row_cypher lib b)
       \<and> (\<not> is_dict (dict_get p ''after'') \<and> \<not> is_dict (dict_get p ''before'') \<longrightarrow>
            build_entity_cypher lib m = Inr None
          \<and> build_relationship_cypher lib m = Inr None)"
  using builders_on_envelope [OF assms]
  by (simp add: build_entity_cypher_row build_relationship_cypher_row select_row_def)

text \<open>Three envelopes: both snapshots, only \<open>before\<close>, and neither.\<close>

theorem row_selection_witness:
  "payload (as_obj example_lib
      (MVal (PDict [(''before'', PDict [(''id'', PStr ''old'')]),
                    (''after'', PDict [(''id'', PStr ''new'')])])))
     = Inr (PDict [(''before'', PDict [(''id'', PStr ''old'')]),
                   (''after'', PDict [(''id'', PStr ''new'')])])
   \<and> build_entity_cypher example_lib
        (MVal (PDict [(''before'', PDict [(''id'', PStr ''old'')]),
                      (''after'', PDict [(''id'', PStr ''new'')])]))
       = entity_row_cypher example_lib [(''id'', PStr ''new'')]
   \<and> build_relationship_cypher example_lib
        (MVal (PDict [(''before'', PDict [(''id'', PStr ''old'')]),
                      (''after'', PDict [(''id'', PStr ''new'')])]))
       = relationship_row_cypher example_lib [(''id'', PStr ''new'')]
   \<and> payload (as_obj example_lib
        (MVal (PDict [(''before'', PDict [(''id'', PStr ''old'')]), (''after'', PNone)])))
       = Inr (PDict [(''before'', PDict [(''id'', PStr ''old'')]), (''after'', PNone)])
   \<and> build_entity_cypher example_lib
        (MVal (PDict [(''before'', PDict [(''id'', PStr ''old'')]), (''after'', PNone)]))
       = entity_row_cypher example_lib [(''id'', PStr ''old'')]
   \<and> build_relationship_cypher example_lib
        (MVal (PDict [(''before'', PDict [(''id'', PStr ''old'')]), (''after'', PNone)]))
       = relationship_row_cypher example_lib [(''id'', PStr ''old'')]
   \<and> payload (as_obj example_lib (MVal (PDict [(''op'', PStr ''d'')])))
       = Inr (PDict [(''op'', PStr ''d'')])
   \<and> build_entity_cypher example_lib (MVal (PDict [(''op'', PStr ''d'')])) = Inr None
   \<and> build_relationship_cypher example_lib (MVal (PDict [(''op'', PStr ''d'')])) = Inr None"
proof -
  let ?m1 = "MVal (PDict [(''before'', PDict [(''id'', PStr ''old'')]),
                          (''after'', PDict [(''id'', PStr ''new'')])])"
  let ?m2 = "MVal (PDict [(''before'', PDict [(''id'', PStr ''old'')]), (''after'', PNone)])"
  let ?m3 = "MVal (PDict [(''op'', PStr ''d'')])"
  have p1: "payload (as_obj example_lib ?m1) =
      Inr (PDict [(''before'', PDict [(''id'', PStr ''old'')]),
                  (''after'', PDict [(''id'', PStr ''new'')])])"
    by (simp add: as_obj_def payload_def bind_err_def has_key_def)
  have p2: "payload (as_obj example_lib ?m2) =
      Inr (PDict [(''before'', PDict [(''id'', PStr ''old'')]), (''after'', PNone)])"
    by (simp add: as_obj_def payload_def bind_err_def has_key_def)
  have p3: "payload (as_obj example_lib ?m3) = Inr (PDict [(''op'', PStr ''d'')])"
    by (simp add: as_obj_def payload_def bind_err_def has_key_def)
  show ?thesis
    using p1 p2 p3
      row_selection [OF p1, of "[(''id'', PStr ''new'')]" "[]"]
      row_selection [OF p2, of "[]" "[(''id'', PStr ''old'')]"]
      row_selection [OF p3, of "[]" "[]"]
    by (simp add: dict_get_def)
qed

text \<open>
  Claim C4. \<open>_build_entity_cypher\<close> returns a statement only when the message yields a row
  whose \<open>id\<close>, \<open>tenant_id\<close> and \<open>entity_type\<close> are all present and truthy; when the
  message yields a row in which one of the three is missing or falsy (\<open>None\<close>, empty text,
  zero, \<open>False\<close>, an empty list or dictionary), the result is \<open>None\<close>.
\<close>

theorem entity_required_fields:
  "(build_entity_cypher lib m = Inr (Some s) \<longrightarrow>
      (\<exists>row. effective_row lib m = Inr (PDict row)
         \<and> truthy (dict_get row ''id'') \<and> truthy (dict_get row ''tenant_id'')
         \<and> truthy (dict_get row ''entity_type'')))
   \<and> (effective_row lib m = Inr (PDict row)
        \<and> \<not> (truthy (dict_get row ''id'') \<and> truthy (dict_get row ''tenant_id'')
              \<and> truthy (dict_get row ''entity_type''))
      \<longrightarrow> build_entity_cypher lib m = Inr None)"
proof (intro conjI impI)
  assume some: "build_entity_cypher lib m = Inr (Some s)"
  then obtain r where r: "effective_row lib m = Inr (PDict r)"
    and res: "entity_row_cypher lib r = Inr (Some s)"
    by (auto simp: build_entity_cypher_row split: sum.splits pyval.splits)
  have "truthy (dict_get r ''id'') \<and> truthy (dict_get r ''tenant_id'')
         \<and> truthy (dict_get r ''entity_type'')"
  proof (rule ccontr)
    assume neg: "\<not> ?thesis"
    have "entity_row_cypher lib r = Inr None" by (rule entity_row_cypher_invalid [OF neg])
    with res show False by simp
  qed
  with r show "\<exists>row. effective_row lib m = Inr (PDict row)
         \<and> truthy (dict_get row ''id'') \<and> truthy (dict_get row ''tenant_id'')
         \<and> truthy (dict_get row ''entity_type'')" by blast
next
  assume "effective_row lib m = Inr (PDict row)
        \<and> \<not> (truthy (dict_get row ''id'') \<and> truthy (dict_get row ''tenant_id'')
              \<and> truthy (dict_get row ''entity_type''))"
  then show "build_entity_cypher lib m = Inr None"
    by (simp add: build_entity_cypher_row entity_row_cypher_invalid)
qed

text \<open>A row with the three fields, and the same row with an empty \<open>tenant_id\<close>.\<close>

theorem entity_required_fields_witness:
  "build_entity_cypher example_lib
     (MVal (PDict [(''after'', PDict [(''id'', PStr ''e1''), (''tenant_id'', PStr ''t1''),
                                      (''entity_type'', PStr ''T'')])]))
     = Inr (Some (''MERGE (e:T {id: '' @ [squote] @ ''e1'' @ [squote]
                    @ '', tenant_id: '' @ [squote] @ ''t1'' @ [squote] @ ''})'' @ [newline]
                  @ ''SET e.id = '' @ [squote] @ ''e1'' @ [squote] @ [newline]
                  @ ''SET e.tenant_id = '' @ [squote] @ ''t1'' @ [squote] @ [newline]
                  @ ''SET e.entity_type = '' @ [squote] @ ''T'' @ [squote] @ [newline]
                  @ ''RETURN e;''))
   \<and> effective_row example_lib
        (MVal (PDict [(''after'', PDict [(''id'', PStr ''e1''), (''tenant_id'', PStr []),
                                         (''entity_type'', PStr ''T'')])]))
       = Inr (PDict [(''id'', PStr ''e1''), (''tenant_id'', PStr []), (''entity_type'', PStr ''T'')])
   \<and> \<not> truthy (dict_get [(''id'', PStr ''e1''), (''tenant_id'', PStr []),
                           (''entity_type'', PStr ''T'')] ''tenant_id'')
   \<and> build_entity_cypher example_lib
        (MVal (PDict [(''after'', PDict [(''id'', PStr ''e1''), (''tenant_id'', PStr []),
                                         (''entity_type'', PStr ''T'')])]))
       = Inr None"
  using
    entity_required_fields
      [of example_lib
          "MVal (PDict [(''after'', PDict [(''id'', PStr ''e1''), (''tenant_id'', PStr ''t1''),
                                           (''entity_type'', PStr ''T'')])])"
          "''MERGE (e:T {id: '' @ [squote] @ ''e1'' @ [squote]
                    @ '', tenant_id: '' @ [squote] @ ''t1'' @ [squote] @ ''})'' @ [newline]
                  @ ''SET e.id = '' @ [squote] @ ''e1'' @ [squote] @ [newline]
                  @ ''SET e.tenant_id = '' @ [squote] @ ''t1'' @ [squote] @ [newline]
                  @ ''SET e.entity_type = '' @ [squote] @ ''T'' @ [squote] @ [newline]
                  @ ''RETURN e;''"
          "[]"]
    entity_required_fields
      [of example_lib
          "MVal (PDict [(''after'', PDict [(''id'', PStr ''e1''), (''tenant_id'', PStr []),
                                           (''entity_type'', PStr ''T'')])])"
          "[]"
          "[(''id'', PStr ''e1''), (''tenant_id'', PStr []), (''entity_type'', PStr ''T'')]"]
  by (simp add: run_defs)

text \<open>
  Claim C5. \<open>_build_relationship_cypher\<close> returns a statement only when the message yields
  a row whose \<open>tenant_id\<close>, \<open>relationship_type\<close>, \<open>id\<close>, \<open>from_merged_entity_id\<close>,
  \<open>to_merged_entity_id\<close>, \<open>from_entity_type\<close> and \<open>to_entity_type\<close> are all present and
  truthy; when the message yields a row in which one of the seven is missing or falsy, the
  result is \<open>None\<close>.
\<close>

theorem relationship_required_fields:
  "(build_relationship_cypher lib m = Inr (Some s) \<longrightarrow>
      (\<exists>row. effective_row lib m = Inr (PDict row)
         \<and> truthy (dict_get row ''tenant_id'') \<and> truthy (dict_get row ''relationship_type'')
         \<and> truthy (dict_get row ''id'') \<and> truthy (dict_get row ''from_merged_entity_id'')
         \<and> truthy (dict_get row ''to_merged_entity_id'')
         \<and> truthy (dict_get row ''from_entity_type'')
         \<and> truthy (dict_get row ''to_entity_type'')))
   \<and> (effective_row lib m = Inr (PDict row)
        \<and> \<not> (truthy (dict_get row ''tenant_id'') \<and> truthy (dict_get row ''relationship_type'')
              \<and> truthy (dict_get row ''id'') \<and> truthy (dict_get row ''from_merged_entity_id'')
              \<and> truthy (dict_get row ''to_merged_entity_id'')
              \<and> truthy (dict_get row ''from_entity_type'')
              \<and> truthy (dict_get row ''to_entity_type''))
      \<longrightarrow> build_relationship_cypher lib m = Inr None)"
proof (intro conjI impI)
  assume some: "build_relationship_cypher lib m = Inr (Some s)"
  then obtain r where r: "effective_row lib m = Inr (PDict r)"
    and res: "relationship_row_cypher lib r = Inr (Some s)"
    by (auto simp: build_relationship_cypher_row split: sum.splits pyval.splits)
  have "truthy (dict_get r ''tenant_id'') \<and> truthy (dict_get r ''relationship_type'')
         \<and> truthy (dict_get r ''id'') \<and> truthy (dict_get r ''from_merged_entity_id'')
         \<and> truthy (dict_get r ''to_merged_entity_id'')
         \<and> truthy (dict_get r ''from_entity_type'')
         \<and> truthy (dict_get r ''to_entity_type'')"
  proof (rule ccontr)
    assume neg: "\<not> ?thesis"
    have "relationship_row_cypher lib r = Inr None"
      by (rule relationship_row_cypher_invalid [OF neg])
    with res show False by simp
  qed
  with r show "\<exists>row. effective_row lib m = Inr (PDict row)
         \<and> truthy (dict_get row ''tenant_id'') \<and> truthy (dict_get row ''relationship_type'')
         \<and> truthy (dict_get row ''id'') \<and> truthy (dict_get row ''from_merged_entity_id'')
         \<and> truthy (dict_get row ''to_merged_entity_id'')
         \<and> truthy (dict_get row ''from_entity_type'')
         \<and> truthy (dict_get row ''to_entity_type'')" by blast
next
  assume "effective_row lib m = Inr (PDict row)
        \<and> \<not> (truthy (dict_get row ''tenant_id'') \<and> truthy (dict_get row ''relationship_type'')
              \<and> truthy (dict_get row ''id'') \<and> truthy (dict_get row ''from_merged_entity_id'')
              \<and> truthy (dict_get row ''to_merged_entity_id'')
              \<and> truthy (dict_get row ''from_entity_type'')
              \<and> truthy (dict_get row ''to_entity_type''))"
  then show "build_relationship_cypher lib m = Inr None"
    by (simp add: build_relationship_cypher_row relationship_row_cypher_invalid)
qed

text \<open>A row with the seven fields, and a row whose \<open>to_merged_entity_id\<close> is 0 and
  that has no \<open>to_entity_type\<close>.\<close>

theorem relationship_required_fields_witness:
  "build_relationship_cypher example_lib
     (MVal (PDict [(''after'', PDict [(''tenant_id'', PStr ''t1''),
                                      (''relationship_type'', PStr ''KNOWS''),
                                      (''id'', PStr ''r1''),
                                      (''from_merged_entity_id'', PStr ''e1''),
                                      (''to_merged_entity_id'', PStr ''e2''),
                                      (''from_entity_type'', PStr ''A''),
                                      (''to_entity_type'', PStr ''B'')])]))
     = Inr (Some (''MERGE (a:A {id: '' @ [squote] @ ''e1'' @ [squote]
                    @ '', tenant_id: '' @ [squote] @ ''t1'' @ [squote] @ ''})'' @ [newline]
                  @ ''MERGE (b:B {id: '' @ [squote] @ ''e2'' @ [squote]
                    @ '', tenant_id: '' @ [squote] @ ''t1'' @ [squote] @ ''})'' @ [newline]
                  @ ''MERGE (a)-[r:KNOWS {id: '' @ [squote] @ ''r1'' @ [squote]
                    @ '', tenant_id: '' @ [squote] @ ''t1'' @ [squote] @ ''}]->(b)'' @ [newline]
                  @ ''SET r.id = '' @ [squote] @ ''r1'' @ [squote] @ [newline]
                  @ ''SET r.tenant_id = '' @ [squote] @ ''t1'' @ [squote] @ [newline]
                  @ ''RETURN r;''))
   \<and> effective_row example_lib
        (MVal (PDict [(''after'', PDict [(''tenant_id'', PStr ''t1''),
                                         (''relationship_type'', PStr ''KNOWS''),
                                         (''id'', PStr ''r1''),
                                         (''from_merged_entity_id'', PStr ''e1''),
                                         (''to_merged_entity_id'', PInt 0),
                                         (''from_entity_type'', PStr ''A'')])]))
       = Inr (PDict [(''tenant_id'', PStr ''t1''), (''relationship_type'', PStr ''KNOWS''),
                     (''id'', PStr ''r1''), (''from_merged_entity_id'', PStr ''e1''),
                     (''to_merged_entity_id'', PInt 0), (''from_entity_type'', PStr ''A'')])
   \<and> \<not> truthy (dict_get [(''tenant_id'', PStr ''t1''), (''relationship_type'', PStr ''KNOWS''),
                     (''id'', PStr ''r1''), (''from_merged_entity_id'', PStr ''e1''),
                     (''to_merged_entity_id'', PInt 0), (''from_entity_type'', PStr ''A'')]
                    ''to_merged_entity_id'')
   \<and> build_relationship_cypher example_lib
        (MVal (PDict [(''after'', PDict [(''tenant_id'', PStr ''t1''),
                                         (''relationship_type'', PStr ''KNOWS''),
                                         (''id'', PStr ''r1''),
                                         (''from_merged_entity_id'', PStr ''e1''),
                                         (''to_merged_entity_id'', PInt 0),
                                         (''from_entity_type'', PStr ''A'')])]))
       = Inr None"
  using
    relationship_required_fields
      [of example_lib
          "MVal (PDict [(''after'', PDict [(''tenant_id'', PStr ''t1''),
                                      (''relationship_type'', PStr ''KNOWS''),
                                      (''id'', PStr ''r1''),
                                      (''from_merged_entity_id'', PStr ''e1''),
                                      (''to_merged_entity_id'', PStr ''e2''),
                                      (''from_entity_type'', PStr ''A''),
                                      (''to_entity_type'', PStr ''B'')])])"
          "''MERGE (a:A {id: '' @ [squote] @ ''e1'' @ [squote]
                    @ '', tenant_id: '' @ [squote] @ ''t1'' @ [squote] @ ''})'' @ [newline]
                  @ ''MERGE (b:B {id: '' @ [squote] @ ''e2'' @ [squote]
                    @ '', tenant_id: '' @ [squote] @ ''t1'' @ [squote] @ ''})'' @ [newline]
                  @ ''MERGE (a)-[r:KNOWS {id: '' @ [squote] @ ''r1'' @ [squote]
                    @ '', tenant_id: '' @ [squote] @ ''t1'' @ [squote] @ ''}]->(b)'' @ [newline]
                  @ ''SET r.id = '' @ [squote] @ ''r1'' @ [squote] @ [newline]
                  @ ''SET r.tenant_id = '' @ [squote] @ ''t1'' @ [squote] @ [newline]
                  @ ''RETURN r;''"
          "[]"]
    relationship_required_fields
      [of example_lib
          "MVal (PDict [(''after'', PDict [(''tenant_id'', PStr ''t1''),
                                         (''relationship_type'', PStr ''KNOWS''),
                                         (''id'', PStr ''r1''),
                                         (''from_merged_entity_id'', PStr ''e1''),
                                         (''to_merged_entity_id'', PInt 0),
                                         (''from_entity_type'', PStr ''A'')])])"
          "[]"
          "[(''tenant_id'', PStr ''t1''), (''relationship_type'', PStr ''KNOWS''),
            (''id'', PStr ''r1''), (''from_merged_entity_id'', PStr ''e1''),
            (''to_merged_entity_id'', PInt 0), (''from_entity_type'', PStr ''A'')]"]
  by (simp add: run_defs)

text \<open>
  The claim as first stated has a clause for every key composed solely of letters, digits
  and underscores. The key \<open>_\<close> is such a key, and \<open>k.replace("_", "").isalnum()\<close> is false
  for it, so it gets no clause.
\<close>

theorem underscore_key_counterexample:
  "\<not> (set_clause example_lib ''e'' ''_'' (PInt 1)
          \<in> set (set_clauses example_lib ''e'' [(''_'', PInt 1)] (skip_set None))
        \<longleftrightarrow> identifier_chars ''_'')"
  by (simp add: set_clauses_def skip_set_def py_isalnum_def identifier_chars_def)

text \<open>
  Claim C6, amended. For every property map and every exclusion set, \<open>_set_props\<close> emits,
  in the map's iteration order and joined by newlines, one assignment clause for each entry
  whose key is not excluded, is composed solely of letters, digits and underscores, and has
  at least one letter or digit; every other entry is skipped. (Letters and digits are the
  characters that Python's \<open>isalnum\<close> accepts.)
\<close>

theorem set_props_clauses:
  "set_clauses lib var props (skip_set skip) =
     map (\<lambda>(k, v). set_clause lib var k v)
       (filter (\<lambda>(k, v). k \<notin> skip_set skip \<and> identifier_chars k \<and> has_alnum k) props)
   \<and> set_props lib var props skip =
       py_join [newline]
         (map (\<lambda>(k, v). set_clause lib var k v)
            (filter (\<lambda>(k, v). k \<notin> skip_set skip \<and> identifier_chars k \<and> has_alnum k) props))"
  by (simp add: set_props_def set_clauses_filter key_check_iff)

text \<open>Six entries, of which one is excluded and three have keys that are skipped.\<close>

theorem set_props_clauses_witness:
  "set_props example_lib ''e''
     [(''a_b'', PInt 12), (''_'', PInt 2), (''a-b'', PInt 3), ([], PInt 4), (''x'', PInt 5),
      (''n9'', PNone)]
     (Some {''x''})
   = ''SET e.a_b = 12'' @ [newline] @ ''SET e.n9 = NULL''"
  using set_props_clauses
    [of example_lib "''e''"
        "[(''a_b'', PInt 12), (''_'', PInt 2), (''a-b'', PInt 3), ([], PInt 4), (''x'', PInt 5),
          (''n9'', PNone)]"
        "Some {''x''}"]
  by (simp add: run_defs identifier_chars_def has_alnum_def)

text \<open>
  Claim C8. For the row with \<open>tenant_id = "t1"\<close>, \<open>relationship_type = "KNOWS"\<close>,
  \<open>id = "r1"\<close>, \<open>from_merged_entity_id = "e1"\<close>, \<open>to_merged_entity_id = "e2"\<close> and both
  entity types \<open>"Person"\<close>, wrapped in an \<open>after\<close> snapshot, \<open>_build_relationship_cypher\<close>
  returns the statement that merges a \<open>Person\<close> node keyed by \<open>(id = 'e1', tenant_id =
  't1')\<close>, a \<open>Person\<close> node keyed by \<open>(id = 'e2', tenant_id = 't1')\<close>, and a \<open>KNOWS\<close> edge
  between them keyed by \<open>(id = 'r1', tenant_id = 't1')\<close>. The whole text is given.
\<close>

theorem relationship_scenario:
  "build_relationship_cypher lib
     (MVal (PDict [(''after'', PDict [(''tenant_id'', PStr ''t1''),
                                      (''relationship_type'', PStr ''KNOWS''),
                                      (''id'', PStr ''r1''),
                                      (''from_merged_entity_id'', PStr ''e1''),
                                      (''to_merged_entity_id'', PStr ''e2''),
                                      (''from_entity_type'', PStr ''Person''),
                                      (''to_entity_type'', PStr ''Person'')])]))
   = Inr (Some (''MERGE (a:Person {id: '' @ [squote] @ ''e1'' @ [squote]
                  @ '', tenant_id: '' @ [squote] @ ''t1'' @ [squote] @ ''})'' @ [newline]
                @ ''MERGE (b:Person {id: '' @ [squote] @ ''e2'' @ [squote]
                  @ '', tenant_id: '' @ [squote] @ ''t1'' @ [squote] @ ''})'' @ [newline]
                @ ''MERGE (a)-[r:KNOWS {id: '' @ [squote] @ ''r1'' @ [squote]
                  @ '', tenant_id: '' @ [squote] @ ''t1'' @ [squote] @ ''}]->(b)'' @ [newline]
                @ ''SET r.id = '' @ [squote] @ ''r1'' @ [squote] @ [newline]
                @ ''SET r.tenant_id = '' @ [squote] @ ''t1'' @ [squote] @ [newline]
                @ ''RETURN r;''))"
  by (simp add: build_relationship_cypher_def as_obj_def payload_def bind_err_def has_key_def
      select_row_def dict_get_def relationship_row_cypher_def py_or_def parse_data_def
      relationship_props_def copy_fields_def merge_data_def dict_item_def set_props_def
      set_clauses_def set_clause_def skip_set_def py_isalnum_def isalnum_char_def
      py_strip_def isspace_char_def cypher_escape_string_def)

text \<open>
  Claim C9. When the row of a message passes the field validation and its \<open>data\<close> field
  is text that \<open>json.loads\<close> rejects, each builder still returns a statement: the one built
  from the row's own fields alone, that is \<open>id\<close> and \<open>tenant_id\<close> (and \<open>entity_type\<close> for
  an entity) as text and the known fields that the row has, with nothing overlaid from
  \<open>data\<close>.
\<close>

theorem unparseable_data_blob:
  assumes "effective_row lib m = Inr (PDict row)"
    and "dict_get row ''data'' = PStr blob"
    and "json_loads lib blob = None"
  shows "(truthy (dict_get row ''id'') \<and> truthy (dict_get row ''tenant_id'')
            \<and> truthy (dict_get row ''entity_type'') \<longrightarrow>
          build_entity_cypher lib m =
            Inr (Some (''MERGE (e:'' @ py_str lib (dict_get row ''entity_type'') @ '' {id: ''
              @ cypher_literal lib (PStr (py_str lib (dict_get row ''id''))) @ '', tenant_id: ''
              @ cypher_literal lib (PStr (py_str lib (dict_get row ''tenant_id''))) @ ''})''
              @ [newline]
              @ set_props lib ''e''
                  (copy_fields
                     [''version'', ''source_count'', ''created_at'', ''updated_at'', ''deleted_at'']
                     row
                     [(''id'', PStr (py_str lib (dict_get row ''id''))),
                      (''tenant_id'', PStr (py_str lib (dict_get row ''tenant_id''))),
                      (''entity_type'', PStr (py_str lib (dict_get row ''entity_type'')))])
                  None
              @ [newline] @ ''RETURN e;'')))
       \<and> (truthy (dict_get row ''tenant_id'') \<and> truthy (dict_get row ''relationship_type'')
            \<and> truthy (dict_get row ''id'') \<and> truthy (dict_get row ''from_merged_entity_id'')
            \<and> truthy (dict_get row ''to_merged_entity_id'')
            \<and> truthy (dict_get row ''from_entity_type'')
            \<and> truthy (dict_get row ''to_entity_type'') \<longrightarrow>
          build_relationship_cypher lib m =
            Inr (Some (''MERGE (a:'' @ py_str lib (dict_get row ''from_entity_type'') @ '' {id: ''
              @ cypher_literal lib (PStr (py_str lib (dict_get row ''from_merged_entity_id'')))
              @ '', tenant_id: '' @ cypher_literal lib (PStr (py_str lib (dict_get row ''tenant_id'')))
              @ ''})'' @ [newline]
              @ ''MERGE (b:'' @ py_str lib (dict_get row ''to_entity_type'') @ '' {id: ''
              @ cypher_literal lib (PStr (py_str lib (dict_get row ''to_merged_entity_id'')))
              @ '', tenant_id: '' @ cypher_literal lib (PStr (py_str lib (dict_get row ''tenant_id'')))
              @ ''})'' @ [newline]
              @ ''MERGE (a)-[r:'' @ py_str lib (dict_get row ''relationship_type'') @ '' {id: ''
              @ cypher_literal lib (PStr (py_str lib (dict_get row ''id''))) @ '', tenant_id: ''
              @ cypher_literal lib (PStr (py_str lib (dict_get row ''tenant_id''))) @ ''}]->(b)''
              @ [newline]
              @ set_props lib ''r''
                  (copy_fields
                     [''source_plan_id'', ''source_execution_id'', ''created_at'', ''updated_at'',
                      ''deleted_at'']
                     row
                     [(''id'', PStr (py_str lib (dict_get row ''id''))),
                      (''tenant_id'', PStr (py_str lib (dict_get row ''tenant_id'')))])
                  None
              @ [newline] @ ''RETURN r;'')))"
proof (intro conjI impI)
  assume ok: "truthy (dict_get row ''id'') \<and> truthy (dict_get row ''tenant_id'')
            \<and> truthy (dict_get row ''entity_type'')"
  have data: "parse_data lib (py_or (dict_get row ''data'') (PDict [])) = PDict []"
    using assms(2,3) by (simp add: parse_data_failure)
  have "build_entity_cypher lib m = entity_row_cypher lib row"
    using assms(1) by (simp add: build_entity_cypher_row)
  also note entity_row_cypher_valid [of row "entity_props lib row (PDict [])" lib]
  finally show "build_entity_cypher lib m =
            Inr (Some (''MERGE (e:'' @ py_str lib (dict_get row ''entity_type'') @ '' {id: ''
              @ cypher_literal lib (PStr (py_str lib (dict_get row ''id''))) @ '', tenant_id: ''
              @ cypher_literal lib (PStr (py_str lib (dict_get row ''tenant_id''))) @ ''})''
              @ [newline]
              @ set_props lib ''e''
                  (copy_fields
                     [''version'', ''source_count'', ''created_at'', ''updated_at'', ''deleted_at'']
                     row
                     [(''id'', PStr (py_str lib (dict_get row ''id''))),
                      (''tenant_id'', PStr (py_str lib (dict_get row ''tenant_id''))),
                      (''entity_type'', PStr (py_str lib (dict_get row ''entity_type'')))])
                  None
              @ [newline] @ ''RETURN e;''))"
    using ok data by (simp add: entity_props_empty dict_get_copy_fields dict_get_Cons)
next
  assume ok: "truthy (dict_get row ''tenant_id'') \<and> truthy (dict_get row ''relationship_type'')
            \<and> truthy (dict_get row ''id'') \<and> truthy (dict_get row ''from_merged_entity_id'')
            \<and> truthy (dict_get row ''to_merged_entity_id'')
            \<and> truthy (dict_get row ''from_entity_type'')
            \<and> truthy (dict_get row ''to_entity_type'')"
  have data: "parse_data lib (py_or (dict_get row ''data'') (PDict [])) = PDict []"
    using assms(2,3) by (simp add: parse_data_failure)
  have "build_relationship_cypher lib m = relationship_row_cypher lib row"
    using assms(1) by (simp add: build_relationship_cypher_row)
  also note relationship_row_cypher_valid [of row "relationship_props lib row (PDict [])" lib]
  finally show "build_relationship_cypher lib m =
            Inr (Some (''MERGE (a:'' @ py_str lib (dict_get row ''from_entity_type'') @ '' {id: ''
              @ cypher_literal lib (PStr (py_str lib (dict_get row ''from_merged_entity_id'')))
              @ '', tenant_id: '' @ cypher_literal lib (PStr (py_str lib (dict_get row ''tenant_id'')))
              @ ''})'' @ [newline]
              @ ''MERGE (b:'' @ py_str lib (dict_get row ''to_entity_type'') @ '' {id: ''
              @ cypher_literal lib (PStr (py_str lib (dict_get row ''to_merged_entity_id'')))
              @ '', tenant_id: '' @ cypher_literal lib (PStr (py_str lib (dict_get row ''tenant_id'')))
              @ ''})'' @ [newline]
              @ ''MERGE (a)-[r:'' @ py_str lib (dict_get row ''relationship_type'') @ '' {id: ''
              @ cypher_literal lib (PStr (py_str lib (dict_get row ''id''))) @ '', tenant_id: ''
              @ cypher_literal lib (PStr (py_str lib (dict_get row ''tenant_id''))) @ ''}]->(b)''
              @ [newline]
              @ set_props lib ''r''
                  (copy_fields
                     [''source_plan_id'', ''source_execution_id'', ''created_at'', ''updated_at'',
                      ''deleted_at'']
                     row
                     [(''id'', PStr (py_str lib (dict_get row ''id''))),
                      (''tenant_id'', PStr (py_str lib (dict_get row ''tenant_id'')))])
                  None
              @ [newline] @ ''RETURN r;''))"
    using ok data by (simp add: relationship_props_empty dict_get_copy_fields dict_get_Cons)
qed

text \<open>An entity row and a relationship row whose \<open>data\<close> is the text \<open>{oops\<close>.\<close>

theorem unparseable_data_blob_witness:
  "effective_row example_lib
     (MVal (PDict [(''after'', PDict [(''id'', PStr ''e1''), (''tenant_id'', PStr ''t1''),
                                      (''entity_type'', PStr ''T''), (''version'', PInt 3),
                                      (''data'', PStr ''{oops'')])]))
     = Inr (PDict [(''id'', PStr ''e1''), (''tenant_id'', PStr ''t1''),
                   (''entity_type'', PStr ''T''), (''version'', PInt 3),
                   (''data'', PStr ''{oops'')])
   \<and> json_loads example_lib ''{oops'' = None
   \<and> build_entity_cypher example_lib
        (MVal (PDict [(''after'', PDict [(''id'', PStr ''e1''), (''tenant_id'', PStr ''t1''),
                                         (''entity_type'', PStr ''T''), (''version'', PInt 3),
                                         (''data'', PStr ''{oops'')])]))
       = Inr (Some (''MERGE (e:T {id: '' @ [squote] @ ''e1'' @ [squote]
                      @ '', tenant_id: '' @ [squote] @ ''t1'' @ [squote] @ ''})'' @ [newline]
                    @ ''SET e.id = '' @ [squote] @ ''e1'' @ [squote] @ [newline]
                    @ ''SET e.tenant_id = '' @ [squote] @ ''t1'' @ [squote] @ [newline]
                    @ ''SET e.entity_type = '' @ [squote] @ ''T'' @ [squote] @ [newline]
                    @ ''SET e.version = 3'' @ [newline]
                    @ ''RETURN e;''))
   \<and> build_relationship_cypher example_lib
        (MVal (PDict [(''after'', PDict [(''tenant_id'', PStr ''t1''),
                                         (''relationship_type'', PStr ''KNOWS''),
                                         (''id'', PStr ''r1''),
                                         (''from_merged_entity_id'', PStr ''e1''),
                                         (''to_merged_entity_id'', PStr ''e2''),
                                         (''from_entity_type'', PStr ''A''),
                                         (''to_entity_type'', PStr ''B''),
                                         (''source_plan_id'', PStr ''p7''),
                                         (''data'', PStr ''{oops'')])]))
       = Inr (Some (''MERGE (a:A {id: '' @ [squote] @ ''e1'' @ [squote]
                      @ '', tenant_id: '' @ [squote] @ ''t1'' @ [squote] @ ''})'' @ [newline]
                    @ ''MERGE (b:B {id: '' @ [squote] @ ''e2'' @ [squote]
                      @ '', tenant_id: '' @ [squote] @ ''t1'' @ [squote] @ ''})'' @ [newline]
                    @ ''MERGE (a)-[r:KNOWS {id: '' @ [squote] @ ''r1'' @ [squote]
                      @ '', tenant_id: '' @ [squote] @ ''t1'' @ [squote] @ ''}]->(b)'' @ [newline]
                    @ ''SET r.id = '' @ [squote] @ ''r1'' @ [squote] @ [newline]
                    @ ''SET r.tenant_id = '' @ [squote] @ ''t1'' @ [squote] @ [newline]
                    @ ''SET r.source_plan_id = '' @ [squote] @ ''p7'' @ [squote] @ [newline]
                    @ ''RETURN r;''))"
  using
    unparseable_data_blob
      [of example_lib
          "MVal (PDict [(''after'', PDict [(''id'', PStr ''e1''), (''tenant_id'', PStr ''t1''),
                                      (''entity_type'', PStr ''T''), (''version'', PInt 3),
                                      (''data'', PStr ''{oops'')])])"
          "[(''id'', PStr ''e1''), (''tenant_id'', PStr ''t1''),
                   (''entity_type'', PStr ''T''), (''version'', PInt 3),
                   (''data'', PStr ''{oops'')]"
          "''{oops''"]
    unparseable_data_blob
      [of example_lib
          "MVal (PDict [(''after'', PDict [(''tenant_id'', PStr ''t1''),
                                         (''relationship_type'', PStr ''KNOWS''),
                                         (''id'', PStr ''r1''),
                                         (''from_merged_entity_id'', PStr ''e1''),
                                         (''to_merged_entity_id'', PStr ''e2''),
                                         (''from_entity_type'', PStr ''A''),
                                         (''to_entity_type'', PStr ''B''),
                                         (''source_plan_id'', PStr ''p7''),
                                         (''data'', PStr ''{oops'')])])"
          "[(''tenant_id'', PStr ''t1''), (''relationship_type'', PStr ''KNOWS''),
            (''id'', PStr ''r1''), (''from_merged_entity_id'', PStr ''e1''),
            (''to_merged_entity_id'', PStr ''e2''), (''from_entity_type'', PStr ''A''),
            (''to_entity_type'', PStr ''B''), (''source_plan_id'', PStr ''p7''),
            (''data'', PStr ''{oops'')]"
          "''{oops''"]
  by (simp add: run_defs)

text \<open>
  Claim C10. When \<open>data\<close>, once parsed, is a mapping \<open>d\<close> (a Python dictionary, so its
  keys are distinct), the \<open>id\<close> and \<open>tenant_id\<close> in the MERGE key of the entity node and
  of the relationship edge are the values that \<open>d\<close> gives to these keys, encoded as they
  are and not turned into text, and the row's own fields as text only for a key that \<open>d\<close>
  lacks. The keys of the two endpoint nodes of a relationship are always the row's
  \<open>from_merged_entity_id\<close>, \<open>to_merged_entity_id\<close> and \<open>tenant_id\<close> as text.
\<close>

theorem data_overrides_merge_key:
  assumes "effective_row lib m = Inr (PDict row)"
    and "parse_data lib (py_or (dict_get row ''data'') (PDict [])) = PDict d"
    and "distinct (map fst d)"
  shows "(truthy (dict_get row ''id'') \<and> truthy (dict_get row ''tenant_id'')
            \<and> truthy (dict_get row ''entity_type'') \<longrightarrow>
          build_entity_cypher lib m =
            Inr (Some (''MERGE (e:'' @ py_str lib (dict_get row ''entity_type'') @ '' {id: ''
              @ cypher_literal lib
                  (case map_of d ''id'' of Some v \<Rightarrow> v
                   | None \<Rightarrow> PStr (py_str lib (dict_get row ''id'')))
              @ '', tenant_id: ''
              @ cypher_literal lib
                  (case map_of d ''tenant_id'' of Some v \<Rightarrow> v
                   | None \<Rightarrow> PStr (py_str lib (dict_get row ''tenant_id'')))
              @ ''})'' @ [newline]
              @ set_props lib ''e'' (entity_props lib row (PDict d)) None
              @ [newline] @ ''RETURN e;'')))
       \<and> (truthy (dict_get row ''tenant_id'') \<and> truthy (dict_get row ''relationship_type'')
            \<and> truthy (dict_get row ''id'') \<and> truthy (dict_get row ''from_merged_entity_id'')
            \<and> truthy (dict_get row ''to_merged_entity_id'')
            \<and> truthy (dict_get row ''from_entity_type'')
            \<and> truthy (dict_get row ''to_entity_type'') \<longrightarrow>
          build_relationship_cypher lib m =
            Inr (Some (''MERGE (a:'' @ py_str lib (dict_get row ''from_entity_type'') @ '' {id: ''
              @ cypher_literal lib (PStr (py_str lib (dict_get row ''from_merged_entity_id'')))
              @ '', tenant_id: '' @ cypher_literal lib (PStr (py_str lib (dict_get row ''tenant_id'')))
              @ ''})'' @ [newline]
              @ ''MERGE (b:'' @ py_str lib (dict_get row ''to_entity_type'') @ '' {id: ''
              @ cypher_literal lib (PStr (py_str lib (dict_get row ''to_merged_entity_id'')))
              @ '', tenant_id: '' @ cypher_literal lib (PStr (py_str lib (dict_get row ''tenant_id'')))
              @ ''})'' @ [newline]
              @ ''MERGE (a)-[r:'' @ py_str lib (dict_get row ''relationship_type'') @ '' {id: ''
              @ cypher_literal lib
                  (case map_of d ''id'' of Some v \<Rightarrow> v
                   | None \<Rightarrow> PStr (py_str lib (dict_get row ''id'')))
              @ '', tenant_id: ''
              @ cypher_literal lib
                  (case map_of d ''tenant_id'' of Some v \<Rightarrow> v
                   | None \<Rightarrow> PStr (py_str lib (dict_get row ''tenant_id'')))
              @ ''}]->(b)'' @ [newline]
              @ set_props lib ''r'' (relationship_props lib row (PDict d)) None
              @ [newline] @ ''RETURN r;'')))"
proof (intro conjI impI)
  assume ok: "truthy (dict_get row ''id'') \<and> truthy (dict_get row ''tenant_id'')
            \<and> truthy (dict_get row ''entity_type'')"
  have "build_entity_cypher lib m = entity_row_cypher lib row"
    using assms(1) by (simp add: build_entity_cypher_row)
  also note entity_row_cypher_valid [of row "entity_props lib row (PDict d)" lib]
  finally show "build_entity_cypher lib m =
            Inr (Some (''MERGE (e:'' @ py_str lib (dict_get row ''entity_type'') @ '' {id: ''
              @ cypher_literal lib
                  (case map_of d ''id'' of Some v \<Rightarrow> v
                   | None \<Rightarrow> PStr (py_str lib (dict_get row ''id'')))
              @ '', tenant_id: ''
              @ cypher_literal lib
                  (case map_of d ''tenant_id'' of Some v \<Rightarrow> v
                   | None \<Rightarrow> PStr (py_str lib (dict_get row ''tenant_id'')))
              @ ''})'' @ [newline]
              @ set_props lib ''e'' (entity_props lib row (PDict d)) None
              @ [newline] @ ''RETURN e;''))"
    using ok assms(2) by (simp add: entity_props_identity [OF assms(3)])
next
  assume ok: "truthy (dict_get row ''tenant_id'') \<and> truthy (dict_get row ''relationship_type'')
            \<and> truthy (dict_get row ''id'') \<and> truthy (dict_get row ''from_merged_entity_id'')
            \<and> truthy (dict_get row ''to_merged_entity_id'')
            \<and> truthy (dict_get row ''from_entity_type'')
            \<and> truthy (dict_get row ''to_entity_type'')"
  have "build_relationship_cypher lib m = relationship_row_cypher lib row"
    using assms(1) by (simp add: build_relationship_cypher_row)
  also note relationship_row_cypher_valid [of row "relationship_props lib row (PDict d)" lib]
  finally show "build_relationship_cypher lib m =
            Inr (Some (''MERGE (a:'' @ py_str lib (dict_get row ''from_entity_type'') @ '' {id: ''
              @ cypher_literal lib (PStr (py_str lib (dict_get row ''from_merged_entity_id'')))
              @ '', tenant_id: '' @ cypher_literal lib (PStr (py_str lib (dict_get row ''tenant_id'')))
              @ ''})'' @ [newline]
              @ ''MERGE (b:'' @ py_str lib (dict_get row ''to_entity_type'') @ '' {id: ''
              @ cypher_literal lib (PStr (py_str lib (dict_get row ''to_merged_entity_id'')))
              @ '', tenant_id: '' @ cypher_literal lib (PStr (py_str lib (dict_get row ''tenant_id'')))
              @ ''})'' @ [newline]
              @ ''MERGE (a)-[r:'' @ py_str lib (dict_get row ''relationship_type'') @ '' {id: ''
              @ cypher_literal lib
                  (case map_of d ''id'' of Some v \<Rightarrow> v
                   | None \<Rightarrow> PStr (py_str lib (dict_get row ''id'')))
              @ '', tenant_id: ''
              @ cypher_literal lib
                  (case map_of d ''tenant_id'' of Some v \<Rightarrow> v
                   | None \<Rightarrow> PStr (py_str lib (dict_get row ''tenant_id'')))
              @ ''}]->(b)'' @ [newline]
              @ set_props lib ''r'' (relationship_props lib row (PDict d)) None
              @ [newline] @ ''RETURN r;''))"
    using ok assms(2) by (simp add: relationship_props_identity [OF assms(3)])
qed

text \<open>An entity row whose \<open>data\<close> has \<open>id\<close> 7, and a relationship row whose \<open>data\<close>
  has \<open>tenant_id\<close> \<open>t9\<close>.\<close>

theorem data_overrides_merge_key_witness:
  "effective_row example_lib
     (MVal (PDict [(''after'', PDict [(''id'', PStr ''e1''), (''tenant_id'', PStr ''t1''),
                                      (''entity_type'', PStr ''T''),
                                      (''data'', PDict [(''id'', PInt 7)])])]))
     = Inr (PDict [(''id'', PStr ''e1''), (''tenant_id'', PStr ''t1''),
                   (''entity_type'', PStr ''T''), (''data'', PDict [(''id'', PInt 7)])])
   \<and> build_entity_cypher example_lib
        (MVal (PDict [(''after'', PDict [(''id'', PStr ''e1''), (''tenant_id'', PStr ''t1''),
                                         (''entity_type'', PStr ''T''),
                                         (''data'', PDict [(''id'', PInt 7)])])]))
       = Inr (Some (''MERGE (e:T {id: 7, tenant_id: '' @ [squote] @ ''t1'' @ [squote] @ ''})''
                      @ [newline]
                    @ ''SET e.id = 7'' @ [newline]
                    @ ''SET e.tenant_id = '' @ [squote] @ ''t1'' @ [squote] @ [newline]
                    @ ''SET e.entity_type = '' @ [squote] @ ''T'' @ [squote] @ [newline]
                    @ ''RETURN e;''))
   \<and> build_relationship_cypher example_lib
        (MVal (PDict [(''after'', PDict [(''tenant_id'', PStr ''t1''),
                                         (''relationship_type'', PStr ''KNOWS''),
                                         (''id'', PStr ''r1''),
                                         (''from_merged_entity_id'', PStr ''e1''),
                                         (''to_merged_entity_id'', PStr ''e2''),
                                         (''from_entity_type'', PStr ''A''),
                                         (''to_entity_type'', PStr ''B''),
                                         (''data'', PDict [(''tenant_id'', PStr ''t9'')])])]))
       = Inr (Some (''MERGE (a:A {id: '' @ [squote] @ ''e1'' @ [squote]
                      @ '', tenant_id: '' @ [squote] @ ''t1'' @ [squote] @ ''})'' @ [newline]
                    @ ''MERGE (b:B {id: '' @ [squote] @ ''e2'' @ [squote]
                      @ '', tenant_id: '' @ [squote] @ ''t1'' @ [squote] @ ''})'' @ [newline]
                    @ ''MERGE (a)-[r:KNOWS {id: '' @ [squote] @ ''r1'' @ [squote]
                      @ '', tenant_id: '' @ [squote] @ ''t9'' @ [squote] @ ''}]->(b)'' @ [newline]
                    @ ''SET r.id = '' @ [squote] @ ''r1'' @ [squote] @ [newline]
                    @ ''SET r.tenant_id = '' @ [squote] @ ''t9'' @ [squote] @ [newline]
                    @ ''RETURN r;''))"
  using
    data_overrides_merge_key
      [of example_lib
          "MVal (PDict [(''after'', PDict [(''id'', PStr ''e1''), (''tenant_id'', PStr ''t1''),
                                      (''entity_type'', PStr ''T''),
                                      (''data'', PDict [(''id'', PInt 7)])])])"
          "[(''id'', PStr ''e1''), (''tenant_id'', PStr ''t1''),
                   (''entity_type'', PStr ''T''), (''data'', PDict [(''id'', PInt 7)])]"
          "[(''id'', PInt 7)]"]
    data_overrides_merge_key
      [of example_lib
          "MVal (PDict [(''after'', PDict [(''tenant_id'', PStr ''t1''),
                                         (''relationship_type'', PStr ''KNOWS''),
                                         (''id'', PStr ''r1''),
                                         (''from_merged_entity_id'', PStr ''e1''),
                                         (''to_merged_entity_id'', PStr ''e2''),
                                         (''from_entity_type'', PStr ''A''),
                                         (''to_entity_type'', PStr ''B''),
                                         (''data'', PDict [(''tenant_id'', PStr ''t9'')])])])"
          "[(''tenant_id'', PStr ''t1''), (''relationship_type'', PStr ''KNOWS''),
            (''id'', PStr ''r1''), (''from_merged_entity_id'', PStr ''e1''),
            (''to_merged_entity_id'', PStr ''e2''), (''from_entity_type'', PStr ''A''),
            (''to_entity_type'', PStr ''B''),
            (''data'', PDict [(''tenant_id'', PStr ''t9'')])]"
          "[(''tenant_id'', PStr ''t9'')]"]
  by (simp add: run_defs)

end
